theory Spec2Isabelle
  imports Complex_Main
begin

section \<open>Python and SQLite values\<close>

text \<open>
  A Python \<open>str\<close> is a sequence of Unicode code points, and \<open>len\<close>, slicing and
  \<open>strip\<close> count code points; it is modelled as a list of code points. \<open>asc\<close> embeds an
  ASCII literal. A \<open>bytes\<close> object is a list of bytes.
\<close>

type_synonym pystr = "nat list"

definition asc :: "string \<Rightarrow> pystr" where
  "asc s = map of_char s"

text \<open>
  A Python float (a SQLite REAL): the exact value of a finite double, the two infinities,
  or not-a-number.
\<close>

datatype pyfloat = Finite real | PosInf | NegInf | NaN

text \<open>
  The values a column of a \<open>sqlite3.Row\<close> holds, by storage class: \<open>None\<close>, \<open>int\<close>,
  \<open>float\<close>, \<open>str\<close>, \<open>bytes\<close>.
\<close>

datatype sqlval = VNull | VInt int | VReal pyfloat | VText pystr | VBlob string

datatype error =
    ValueError
  | TypeError
  | OverflowError
  | AttributeError
  | UnicodeEncodeError
  | InterfaceError
  | OperationalError
  | BadRequest

text \<open>
  Builtins of the Python interpreter whose tables are not part of the repository and
  depend on its version: \<open>int(s)\<close> on a \<open>str\<close> and on a \<open>bytes\<close> (\<open>None\<close> stands for
  \<open>ValueError\<close>; the accepted digits and the digit limit are the interpreter's),
  \<open>str(x)\<close> on a float, and \<open>str.lower\<close>. Every function below takes them as the
  parameter \<open>rt\<close>, and every theorem holds for each choice of them.
\<close>

record runtime =
  int_of_text :: "pystr \<Rightarrow> int option"
  int_of_bytes :: "string \<Rightarrow> int option"
  float_repr :: "pyfloat \<Rightarrow> pystr"
  str_lower :: "pystr \<Rightarrow> pystr"

text \<open>\<open>str.isspace\<close> of one code point, as \<open>str.strip()\<close> uses it.\<close>

definition is_space :: "nat \<Rightarrow> bool" where
  "is_space c \<longleftrightarrow>
     (9 \<le> c \<and> c \<le> 13) \<or> (28 \<le> c \<and> c \<le> 32) \<or> c = 133 \<or> c = 160 \<or> c = 5760 \<or>
     (8192 \<le> c \<and> c \<le> 8202) \<or> c = 8232 \<or> c = 8233 \<or> c = 8239 \<or> c = 8287 \<or>
     c = 12288"

definition strip :: "pystr \<Rightarrow> pystr" where
  "strip s = rev (dropWhile is_space (rev (dropWhile is_space s)))"

text \<open>Truth value of a Python object (\<open>if x:\<close>).\<close>

fun py_truthy :: "sqlval \<Rightarrow> bool" where
  "py_truthy VNull = False"
| "py_truthy (VInt i) = (i \<noteq> 0)"
| "py_truthy (VReal (Finite q)) = (q \<noteq> 0)"
| "py_truthy (VReal _) = True"
| "py_truthy (VText s) = (s \<noteq> [])"
| "py_truthy (VBlob b) = (b \<noteq> [])"

text \<open>\<open>str(i)\<close> of an \<open>int\<close>: its decimal digits.\<close>

fun dec :: "nat \<Rightarrow> pystr" where
  "dec n = (if n < 10 then [48 + n] else dec (n div 10) @ [48 + n mod 10])"

definition str_int :: "int \<Rightarrow> pystr" where
  "str_int i = (if i < 0 then 45 # dec (nat (- i)) else dec (nat i))"

text \<open>\<open>str(b)\<close> of a \<open>bytes\<close> object is its \<open>repr\<close>: \<open>b'...'\<close> with escapes.\<close>

definition hexdigit :: "nat \<Rightarrow> nat" where
  "hexdigit n = (if n < 10 then 48 + n else 87 + n)"

definition escape_byte :: "nat \<Rightarrow> nat \<Rightarrow> pystr" where
  "escape_byte quote c =
     (if c = quote \<or> c = 92 then [92, c]
      else if c = 9 then [92, 116]
      else if c = 10 then [92, 110]
      else if c = 13 then [92, 114]
      else if c < 32 \<or> 127 \<le> c then [92, 120, hexdigit (c div 16), hexdigit (c mod 16)]
      else [c])"

definition bytes_repr :: "string \<Rightarrow> pystr" where
  "bytes_repr b =
     (let cs = map of_char b;
          quote = (if 39 \<in> set cs \<and> 34 \<notin> set cs then 34 else 39)
      in [98, quote] @ concat (map (escape_byte quote) cs) @ [quote])"

text \<open>\<open>str(x)\<close>.\<close>

fun py_str :: "runtime \<Rightarrow> sqlval \<Rightarrow> pystr" where
  "py_str rt VNull = asc ''None''"
| "py_str rt (VInt i) = str_int i"
| "py_str rt (VReal f) = float_repr rt f"
| "py_str rt (VText s) = s"
| "py_str rt (VBlob b) = bytes_repr b"

text \<open>
  \<open>int(x)\<close>: a float is truncated towards zero, an infinity raises \<open>OverflowError\<close>, a
  not-a-number \<open>ValueError\<close>; text and bytes are parsed; \<open>None\<close> raises \<open>TypeError\<close>.
\<close>

definition trunc :: "real \<Rightarrow> int" where
  "trunc q = (if 0 \<le> q then \<lfloor>q\<rfloor> else \<lceil>q\<rceil>)"

fun py_int :: "runtime \<Rightarrow> sqlval \<Rightarrow> error + int" where
  "py_int rt VNull = Inl TypeError"
| "py_int rt (VInt i) = Inr i"
| "py_int rt (VReal (Finite q)) = Inr (trunc q)"
| "py_int rt (VReal NaN) = Inl ValueError"
| "py_int rt (VReal _) = Inl OverflowError"
| "py_int rt (VText s) = (case int_of_text rt s of None \<Rightarrow> Inl ValueError | Some n \<Rightarrow> Inr n)"
| "py_int rt (VBlob b) = (case int_of_bytes rt b of None \<Rightarrow> Inl ValueError | Some n \<Rightarrow> Inr n)"

text \<open>
  \<open>dict(row)\<close> maps column names to values. \<open>d.get(k)\<close> returns \<open>None\<close> for a missing
  key, \<open>d.get(k, default)\<close> the default.
\<close>

type_synonym row = "string \<rightharpoonup> sqlval"

definition dict_get :: "row \<Rightarrow> string \<Rightarrow> sqlval" where
  "dict_get row_dict k = (case row_dict k of None \<Rightarrow> VNull | Some v \<Rightarrow> v)"

definition dict_get_default :: "row \<Rightarrow> string \<Rightarrow> sqlval \<Rightarrow> sqlval" where
  "dict_get_default row_dict k d = (case row_dict k of None \<Rightarrow> d | Some v \<Rightarrow> v)"

section \<open>The record transformer\<close>

text \<open>The two literals of \<open>transform_company_data\<close> that are not ASCII, as code points.\<close>

definition check_details :: pystr where
  "check_details = [83, 112, 114, 97, 119, 100, 378, 32, 115, 122, 99, 122, 101, 103, 243, 322, 121]"

definition check_on_site :: pystr where
  "check_on_site = [83, 112, 114, 97, 119, 100, 378, 32, 110, 97, 32, 109, 105, 101, 106, 115, 99, 117]"

text \<open>The loop over the three hook columns (lines 145 to 149), \<open>hooks\<close> being the list built so far.\<close>

fun hooks_loop :: "runtime \<Rightarrow> row \<Rightarrow> string list \<Rightarrow> pystr list \<Rightarrow> pystr list" where
  "hooks_loop rt row_dict [] hooks = hooks"
| "hooks_loop rt row_dict (hook_key # keys) hooks =
     (let hook_value = dict_get row_dict hook_key in
      hooks_loop rt row_dict keys
        (if py_truthy hook_value \<and> strip (py_str rt hook_value) \<noteq> []
         then hooks @ [strip (py_str rt hook_value)]
         else hooks))"

text \<open>
  The rarity (lines 151 to 164): \<open>except (ValueError, TypeError)\<close> catches those two
  exceptions only, any other leaves the function.
\<close>

definition normalize_rarity :: "runtime \<Rightarrow> sqlval \<Rightarrow> error + int" where
  "normalize_rarity rt priority_value =
     (if priority_value \<noteq> VNull then
        (case py_int rt priority_value of
           Inr rarity \<Rightarrow> Inr (if rarity \<notin> {0, 1, 2} then 0 else rarity)
         | Inl e \<Rightarrow> (if e = ValueError \<or> e = TypeError then Inr 0 else Inl e))
      else Inr 0)"

text \<open>
  The conditional expression of lines 172 to 174. Slicing an \<open>int\<close> or a \<open>float\<close> and
  adding a \<open>str\<close> to a \<open>bytes\<close> raise \<open>TypeError\<close>.
\<close>

definition slice100_dots :: "sqlval \<Rightarrow> error + sqlval" where
  "slice100_dots v = (case v of VText s \<Rightarrow> Inr (VText (take 100 s @ asc ''...'')) | _ \<Rightarrow> Inl TypeError)"

definition short_description :: "runtime \<Rightarrow> row \<Rightarrow> error + sqlval" where
  "short_description rt row_dict =
     (if py_truthy (dict_get row_dict ''czym_zajmuje_sie_firma'')
         \<and> length (py_str rt (dict_get row_dict ''czym_zajmuje_sie_firma'')) > 100
      then slice100_dots (dict_get_default row_dict ''czym_zajmuje_sie_firma'' (VText []))
      else Inr (if py_truthy (dict_get_default row_dict ''czym_zajmuje_sie_firma'' (VText []))
                then dict_get_default row_dict ''czym_zajmuje_sie_firma'' (VText [])
                else VText check_details))"

record api_company =
  api_id :: sqlval
  name :: sqlval
  boothNumber :: sqlval
  country :: sqlval
  positions :: "pystr list"
  shortDescription :: sqlval
  description :: sqlval
  problems :: sqlval
  opportunities :: sqlval
  rarity :: int
  hooks :: "pystr list"

definition transform_company_data :: "runtime \<Rightarrow> row \<Rightarrow> error + api_company" where
  "transform_company_data rt row_dict =
     (let hook_list = hooks_loop rt row_dict [''zaczepka1'', ''zaczepka2'', ''zaczepka3''] [];
          priority_value = dict_get row_dict ''czy_warto_sie_zainteresowac''
      in case normalize_rarity rt priority_value of
           Inl e \<Rightarrow> Inl e
         | Inr r \<Rightarrow>
             (case short_description rt row_dict of
                Inl e \<Rightarrow> Inl e
              | Inr short \<Rightarrow>
                  Inr \<lparr> api_id = dict_get row_dict ''id'',
                        name = dict_get_default row_dict ''company'' (VText []),
                        boothNumber = dict_get_default row_dict ''stand'' (VText []),
                        country = dict_get_default row_dict ''country'' (VText []),
                        positions = [check_on_site],
                        shortDescription = short,
                        description = dict_get_default row_dict ''czym_zajmuje_sie_firma'' (VText []),
                        problems = dict_get_default row_dict ''problemy_i_wyzwania'' (VText []),
                        opportunities = dict_get_default row_dict ''mozliwosci_AI_i_danych'' (VText []),
                        rarity = r,
                        hooks = hook_list \<rparr>))"

section \<open>The query builder\<close>

text \<open>\<open>sep.join(xs)\<close>.\<close>

fun join :: "string \<Rightarrow> string list \<Rightarrow> string" where
  "join sep [] = []"
| "join sep [x] = x"
| "join sep (x # y # ys) = x @ sep @ join sep (y # ys)"

text \<open>
  Lines 281 to 309 of \<open>get_companies\<close>: the SQL text and its parameters, from \<open>search\<close>
  (the request parameter after \<open>.strip()\<close>, line 277), \<open>search_by\<close> and \<open>priority\<close>.
  Code point 37 is the percent sign of \<open>f"%{search}%"\<close>.
\<close>

definition yes_tokens :: "pystr list" where
  "yes_tokens = [asc ''tak'', asc ''yes'', asc ''1'', asc ''true'', asc ''warto'']"

definition no_tokens :: "pystr list" where
  "no_tokens = [asc ''nie'', asc ''no'', asc ''0'', asc ''false'']"

definition yes_condition :: string where
  "yes_condition =
     ''(czy_warto_sie_zainteresowac = '1' OR czy_warto_sie_zainteresowac = 'tak' OR czy_warto_sie_zainteresowac = 'yes')''"

definition no_condition :: string where
  "no_condition =
     ''(czy_warto_sie_zainteresowac = '0' OR czy_warto_sie_zainteresowac = 'nie' OR czy_warto_sie_zainteresowac = 'no')''"

definition search_conditions :: "pystr \<Rightarrow> pystr \<Rightarrow> string list \<times> pystr list" where
  "search_conditions search search_by =
     (if search \<noteq> [] then
        (if search_by = asc ''company'' then ([''company LIKE ?''], [37 # search @ [37]])
         else if search_by = asc ''stand'' then ([''stand LIKE ?''], [37 # search @ [37]])
         else ([], []))
      else ([], []))"

definition priority_conditions :: "runtime \<Rightarrow> pystr \<Rightarrow> string list \<times> pystr list" where
  "priority_conditions rt priority =
     (if priority \<noteq> [] then
        (if str_lower rt priority \<in> set yes_tokens then ([yes_condition], [])
         else if str_lower rt priority \<in> set no_tokens then ([no_condition], [])
         else ([''czy_warto_sie_zainteresowac = ?''], [priority]))
      else ([], []))"

definition build_query :: "runtime \<Rightarrow> pystr \<Rightarrow> pystr \<Rightarrow> pystr \<Rightarrow> string \<times> pystr list" where
  "build_query rt search search_by priority =
     (let conditions = fst (search_conditions search search_by) @ fst (priority_conditions rt priority);
          params = snd (search_conditions search search_by) @ snd (priority_conditions rt priority);
          query = ''SELECT * FROM companies'';
          query = (if conditions \<noteq> [] then query @ '' WHERE '' @ join '' AND '' conditions else query)
      in (query @ '' ORDER BY company ASC'', params))"

section \<open>The storage accessor\<close>

text \<open>
  The store as the handlers see it: whether the database file exists
  (\<open>os.path.exists(DATABASE_PATH)\<close>), the rows of the \<open>companies\<close> table (\<open>None\<close> when
  the file has no such table, so that every statement raises \<open>OperationalError\<close>), and the
  number of connections that were opened and not closed.
\<close>

record storage =
  db_file_exists :: bool
  companies_table :: "row list option"
  open_connections :: nat

definition get_db_connection :: "storage \<Rightarrow> storage option" where
  "get_db_connection db =
     (if \<not> db_file_exists db then None
      else Some (db\<lparr>open_connections := Suc (open_connections db)\<rparr>))"

definition connection_close :: "storage \<Rightarrow> storage" where
  "connection_close db = db\<lparr>open_connections := open_connections db - 1\<rparr>"

text \<open>
  The body of a request as \<open>request.get_json()\<close> returns it. The items of an object are
  those of the Python \<open>dict\<close>, whose keys are distinct.
\<close>

datatype json =
    JNull
  | JBool bool
  | JInt int
  | JFloat pyfloat
  | JStr pystr
  | JList "json list"
  | JObj "(pystr \<times> json) list"

definition json_truthy :: "json \<Rightarrow> bool" where
  "json_truthy v =
     (case v of
        JNull \<Rightarrow> False
      | JBool b \<Rightarrow> b
      | JInt i \<Rightarrow> i \<noteq> 0
      | JFloat f \<Rightarrow> (case f of Finite q \<Rightarrow> q \<noteq> 0 | _ \<Rightarrow> True)
      | JStr s \<Rightarrow> s \<noteq> []
      | JList xs \<Rightarrow> xs \<noteq> []
      | JObj kvs \<Rightarrow> kvs \<noteq> [])"

text \<open>\<open>data.get(k, default)\<close> on the items of a \<open>dict\<close>.\<close>

definition items_get :: "(pystr \<times> json) list \<Rightarrow> string \<Rightarrow> json \<Rightarrow> json" where
  "items_get kvs k d = (case map_of kvs (asc k) of None \<Rightarrow> d | Some v \<Rightarrow> v)"

text \<open>
  Binding a Python value to a statement parameter: an \<open>int\<close> outside 64 bits raises
  \<open>OverflowError\<close>, a \<open>str\<close> with a surrogate code point cannot be encoded, a list or a
  dict is not a supported type (\<open>sqlite3.InterfaceError\<close>, \<open>ProgrammingError\<close> in later
  versions of the module); a float that is not a number is bound as NULL.
\<close>

definition int64 :: "int \<Rightarrow> bool" where
  "int64 i \<longleftrightarrow> - 9223372036854775808 \<le> i \<and> i \<le> 9223372036854775807"

definition encodable :: "pystr \<Rightarrow> bool" where
  "encodable s = list_all (\<lambda>c. c < 55296 \<or> (57344 \<le> c \<and> c < 1114112)) s"

definition bind_param :: "json \<Rightarrow> error + sqlval" where
  "bind_param v =
     (case v of
        JNull \<Rightarrow> Inr VNull
      | JBool b \<Rightarrow> Inr (VInt (if b then 1 else 0))
      | JInt i \<Rightarrow> (if int64 i then Inr (VInt i) else Inl OverflowError)
      | JFloat f \<Rightarrow> Inr (case f of NaN \<Rightarrow> VNull | _ \<Rightarrow> VReal f)
      | JStr s \<Rightarrow> (if encodable s then Inr (VText s) else Inl UnicodeEncodeError)
      | JList xs \<Rightarrow> Inl InterfaceError
      | JObj kvs \<Rightarrow> Inl InterfaceError)"

fun bind_all :: "json list \<Rightarrow> error + sqlval list" where
  "bind_all [] = Inr []"
| "bind_all (v # vs) =
     (case bind_param v of
        Inl e \<Rightarrow> Inl e
      | Inr x \<Rightarrow> (case bind_all vs of Inl e \<Rightarrow> Inl e | Inr xs \<Rightarrow> Inr (x # xs)))"

text \<open>The ten columns the INSERT and the UPDATE statements name, in their order.\<close>

definition data_columns :: "string list" where
  "data_columns =
     [''company'', ''country'', ''stand'', ''czym_zajmuje_sie_firma'', ''problemy_i_wyzwania'',
      ''mozliwosci_AI_i_danych'', ''zaczepka1'', ''zaczepka2'', ''zaczepka3'',
      ''czy_warto_sie_zainteresowac'']"

text \<open>
  Modelled from the spec: the table's declaration is not in the repository. The spec says
  that the identifier is unique and assigned by the storage on insert, and that no other
  field is constrained. The identifier is SQLite's row id: one more than the largest in
  the table (1 in an empty table); the insert fails when that leaves 64 bits. What a
  column stores for a bound value depends on its declared type; it is the parameter
  \<open>affinity\<close> (column name, value bound, value stored).
\<close>

definition row_ids :: "row list \<Rightarrow> int list" where
  "row_ids rows = concat (map (\<lambda>r. case r ''id'' of Some (VInt i) \<Rightarrow> [i] | _ \<Rightarrow> []) rows)"

definition next_rowid :: "row list \<Rightarrow> int" where
  "next_rowid rows = (if row_ids rows = [] then 1 else Max (set (row_ids rows)) + 1)"

definition stored_columns :: "(string \<Rightarrow> sqlval \<Rightarrow> sqlval) \<Rightarrow> sqlval list \<Rightarrow> (string \<times> sqlval) list" where
  "stored_columns affinity vs = zip data_columns (map2 affinity data_columns vs)"

definition has_id :: "int \<Rightarrow> row \<Rightarrow> bool" where
  "has_id company_id r \<longleftrightarrow> r ''id'' = Some (VInt company_id)"

definition execute_insert ::
  "(string \<Rightarrow> sqlval \<Rightarrow> sqlval) \<Rightarrow> json list \<Rightarrow> storage \<Rightarrow> error + (int \<times> storage)" where
  "execute_insert affinity params db =
     (case companies_table db of
        None \<Rightarrow> Inl OperationalError
      | Some rows \<Rightarrow>
          (case bind_all params of
             Inl e \<Rightarrow> Inl e
           | Inr vs \<Rightarrow>
               (if \<not> int64 (next_rowid rows) then Inl OperationalError
                else Inr (next_rowid rows,
                  db\<lparr>companies_table :=
                       Some (rows @ [map_of ((''id'', VInt (next_rowid rows)) # stored_columns affinity vs)])\<rparr>))))"

definition execute_select_by_id :: "int \<Rightarrow> storage \<Rightarrow> error + row option" where
  "execute_select_by_id company_id db =
     (case companies_table db of
        None \<Rightarrow> Inl OperationalError
      | Some rows \<Rightarrow>
          (if \<not> int64 company_id then Inl OverflowError
           else Inr (find (has_id company_id) rows)))"

text \<open>An UPDATE and a DELETE return the new store and \<open>cursor.rowcount\<close>.\<close>

definition execute_update ::
  "(string \<Rightarrow> sqlval \<Rightarrow> sqlval) \<Rightarrow> json list \<Rightarrow> int \<Rightarrow> storage \<Rightarrow> error + (nat \<times> storage)" where
  "execute_update affinity params company_id db =
     (case companies_table db of
        None \<Rightarrow> Inl OperationalError
      | Some rows \<Rightarrow>
          (case bind_all (params @ [JInt company_id]) of
             Inl e \<Rightarrow> Inl e
           | Inr vs \<Rightarrow>
               Inr (length (filter (has_id company_id) rows),
                 db\<lparr>companies_table :=
                      Some (map (\<lambda>r. if has_id company_id r
                                      then r ++ map_of (stored_columns affinity (butlast vs))
                                      else r) rows)\<rparr>)))"


text \<open>
  The SELECT of \<open>get_companies\<close> is evaluated by SQLite: \<open>sql\<close> (statement text,
  parameters, rows of the table) stands for the engine.
\<close>

definition execute_select ::
  "(string \<Rightarrow> pystr list \<Rightarrow> row list \<Rightarrow> error + row list) \<Rightarrow> string \<Rightarrow> pystr list \<Rightarrow> storage
     \<Rightarrow> error + row list" where
  "execute_select sql query params db =
     (case companies_table db of
        None \<Rightarrow> Inl OperationalError
      | Some rows \<Rightarrow> sql query params rows)"

section \<open>The route handlers\<close>

datatype payload =
    JsonCompany api_company
  | JsonCompanies "api_company list"
  | JsonCreated int
  | JsonMessage
  | JsonError "error option"

type_synonym response = "nat \<times> payload"


text \<open>
  \<open>jsonify\<close>: a \<open>bytes\<close> value is not JSON serializable and raises \<open>TypeError\<close>.
\<close>

definition is_blob :: "sqlval \<Rightarrow> bool" where
  "is_blob v = (case v of VBlob b \<Rightarrow> True | _ \<Rightarrow> False)"

definition serializable :: "api_company \<Rightarrow> bool" where
  "serializable c =
     (\<not> list_ex is_blob
        [api_id c, name c, boothNumber c, country c, shortDescription c, description c,
         problems c, opportunities c])"

fun transform_all :: "runtime \<Rightarrow> row list \<Rightarrow> error + api_company list" where
  "transform_all rt [] = Inr []"
| "transform_all rt (r # rs) =
     (case transform_company_data rt r of
        Inl e \<Rightarrow> Inl e
      | Inr c \<Rightarrow> (case transform_all rt rs of Inl e \<Rightarrow> Inl e | Inr cs \<Rightarrow> Inr (c # cs)))"

definition args_get :: "(string \<rightharpoonup> pystr) \<Rightarrow> string \<Rightarrow> pystr \<Rightarrow> pystr" where
  "args_get args k d = (case args k of None \<Rightarrow> d | Some v \<Rightarrow> v)"

text \<open>
  Lines 276 to 309 of \<open>get_companies\<close>: the statement and the parameters it executes for
  the query parameters \<open>args\<close> of a request. The search text is trimmed first (line 277).
\<close>

definition request_query :: "runtime \<Rightarrow> (string \<rightharpoonup> pystr) \<Rightarrow> string \<times> pystr list" where
  "request_query rt args =
     (let search = strip (args_get args ''search'' []);
          search_by = args_get args ''searchBy'' (asc ''company'');
          priority = args_get args ''priority'' []
      in build_query rt search search_by priority)"

text \<open>
  Each handler takes the store and returns its response and the store it leaves. An
  exception raised inside \<open>try\<close> reaches \<open>except Exception\<close>, which answers 500 and
  closes nothing.
\<close>

definition get_companies ::
  "(string \<Rightarrow> pystr list \<Rightarrow> row list \<Rightarrow> error + row list) \<Rightarrow> runtime \<Rightarrow> (string \<rightharpoonup> pystr)
     \<Rightarrow> storage \<Rightarrow> response \<times> storage" where
  "get_companies sql rt args db =
     (case get_db_connection db of
        None \<Rightarrow> ((500, JsonError None), db)
      | Some db1 \<Rightarrow>
          (case execute_select sql (fst (request_query rt args)) (snd (request_query rt args)) db1 of
             Inl e \<Rightarrow> ((500, JsonError (Some e)), db1)
           | Inr rows \<Rightarrow>
               (case transform_all rt rows of
                  Inl e \<Rightarrow> ((500, JsonError (Some e)), db1)
                | Inr companies \<Rightarrow>
                    (if list_all serializable companies
                     then ((200, JsonCompanies companies), connection_close db1)
                     else ((500, JsonError (Some TypeError)), connection_close db1)))))"

definition get_company :: "runtime \<Rightarrow> int \<Rightarrow> storage \<Rightarrow> response \<times> storage" where
  "get_company rt company_id db =
     (case get_db_connection db of
        None \<Rightarrow> ((500, JsonError None), db)
      | Some db1 \<Rightarrow>
          (case execute_select_by_id company_id db1 of
             Inl e \<Rightarrow> ((500, JsonError (Some e)), db1)
           | Inr None \<Rightarrow> ((404, JsonError None), connection_close db1)
           | Inr (Some r) \<Rightarrow>
               (case transform_company_data rt r of
                  Inl e \<Rightarrow> ((500, JsonError (Some e)), db1)
                | Inr company \<Rightarrow>
                    (if serializable company
                     then ((200, JsonCompany company), connection_close db1)
                     else ((500, JsonError (Some TypeError)), connection_close db1)))))"

text \<open>
  \<open>body\<close> is what \<open>request.get_json()\<close> does: it returns a value (\<open>JNull\<close> for
  \<open>None\<close>, the JSON literal \<open>null\<close>) or raises inside the handler's \<open>try\<close>
  (\<open>BadRequest\<close> for a body that is empty or is not JSON).
\<close>

definition insert_params :: "(pystr \<times> json) list \<Rightarrow> json list" where
  "insert_params kvs =
     map (\<lambda>k. items_get kvs k JNull) (butlast data_columns)
       @ [items_get kvs ''czy_warto_sie_zainteresowac'' (JInt 0)]"

definition update_params :: "(pystr \<times> json) list \<Rightarrow> json list" where
  "update_params kvs = map (\<lambda>k. items_get kvs k JNull) data_columns"

definition add_company ::
  "(string \<Rightarrow> sqlval \<Rightarrow> sqlval) \<Rightarrow> error + json \<Rightarrow> storage \<Rightarrow> response \<times> storage" where
  "add_company affinity body db =
     (case body of
        Inl e \<Rightarrow> ((500, JsonError (Some e)), db)
      | Inr data \<Rightarrow>
          (if \<not> json_truthy data then ((400, JsonError None), db)
           else case data of
             JObj kvs \<Rightarrow>
               (if \<not> json_truthy (items_get kvs ''company'' JNull) then ((400, JsonError None), db)
                else case get_db_connection db of
                  None \<Rightarrow> ((500, JsonError None), db)
                | Some db1 \<Rightarrow>
                    (case execute_insert affinity (insert_params kvs) db1 of
                       Inl e \<Rightarrow> ((500, JsonError (Some e)), db1)
                     | Inr (company_id, db2) \<Rightarrow> ((201, JsonCreated company_id), connection_close db2)))
           | _ \<Rightarrow> ((500, JsonError (Some AttributeError)), db)))"

definition update_company ::
  "(string \<Rightarrow> sqlval \<Rightarrow> sqlval) \<Rightarrow> int \<Rightarrow> error + json \<Rightarrow> storage \<Rightarrow> response \<times> storage" where
  "update_company affinity company_id body db =
     (case body of
        Inl e \<Rightarrow> ((500, JsonError (Some e)), db)
      | Inr data \<Rightarrow>
          (if \<not> json_truthy data then ((400, JsonError None), db)
           else case get_db_connection db of
             None \<Rightarrow> ((500, JsonError None), db)
           | Some db1 \<Rightarrow>
               (case data of
                  JObj kvs \<Rightarrow>
                    (case execute_update affinity (update_params kvs) company_id db1 of
                       Inl e \<Rightarrow> ((500, JsonError (Some e)), db1)
                     | Inr (rowcount, db2) \<Rightarrow>
                         (if rowcount = 0 then ((404, JsonError None), connection_close db2)
                          else ((200, JsonMessage), connection_close db2)))
                | _ \<Rightarrow> ((500, JsonError (Some AttributeError)), db1))))"


section \<open>The specification's wording\<close>

text \<open>
  The derivations of the API-shaped record as the specification words them, to be compared
  with the functions above. A text is blank when it is empty or holds white space only.
\<close>

definition blank :: "pystr \<Rightarrow> bool" where
  "blank s = list_all is_space s"

definition spec_hooks :: "pystr list \<Rightarrow> pystr list" where
  "spec_hooks texts = map strip (filter (\<lambda>s. \<not> blank s) texts)"

text \<open>The text of a hook field; a null or missing field counts as empty.\<close>

definition field_text :: "sqlval \<Rightarrow> pystr" where
  "field_text v = (case v of VText s \<Rightarrow> s | _ \<Rightarrow> [])"

definition text_or_null :: "sqlval \<Rightarrow> bool" where
  "text_or_null v = (case v of VText s \<Rightarrow> True | VNull \<Rightarrow> True | _ \<Rightarrow> False)"

text \<open>The short description of a business description, \<open>None\<close> being null.\<close>

definition spec_short_description :: "pystr option \<Rightarrow> pystr" where
  "spec_short_description d =
     (case d of
        None \<Rightarrow> check_details
      | Some s \<Rightarrow>
          (if length s > 100 then take 100 s @ asc ''...''
           else if s \<noteq> [] then s
           else check_details))"

text \<open>
  The rarity: the values 0, 1, 2 and their integer-parseable representations map to
  themselves, any other value to 0. A value represents an integer when it is one, is a
  float equal to one, or is a text or bytes that parses as one.
\<close>

definition represented_int :: "runtime \<Rightarrow> sqlval \<Rightarrow> int option" where
  "represented_int rt v =
     (case v of
        VNull \<Rightarrow> None
      | VInt i \<Rightarrow> Some i
      | VReal f \<Rightarrow> (case f of Finite q \<Rightarrow> if of_int \<lfloor>q\<rfloor> = q then Some \<lfloor>q\<rfloor> else None | _ \<Rightarrow> None)
      | VText s \<Rightarrow> int_of_text rt s
      | VBlob b \<Rightarrow> int_of_bytes rt b)"

definition spec_rarity :: "runtime \<Rightarrow> sqlval \<Rightarrow> int" where
  "spec_rarity rt v =
     (case represented_int rt v of
        None \<Rightarrow> 0
      | Some n \<Rightarrow> if n = 0 \<or> n = 1 \<or> n = 2 then n else 0)"

section \<open>An interpreter for the examples\<close>

text \<open>
  The examples below run the model with these builtins. They are CPython's on ASCII text
  and ASCII bytes: \<open>int\<close> reads surrounding blanks (space, tab, line feed, vertical tab,
  form feed, carriage return; not the separators 28 to 31, which \<open>strip\<close> removes), a
  sign, and decimal digits with single underscores between them; \<open>lower\<close> maps \<open>A\<close> to
  \<open>Z\<close>. Text outside ASCII is
  not an integer here and is left unchanged by \<open>lower\<close>, and a float is printed by its
  kind only; no example reaches these cases.
\<close>

definition is_digit :: "nat \<Rightarrow> bool" where
  "is_digit c \<longleftrightarrow> 48 \<le> c \<and> c \<le> 57"

fun digits_value :: "nat \<Rightarrow> pystr \<Rightarrow> nat option" where
  "digits_value acc [] = Some acc"
| "digits_value acc [c] = (if is_digit c then Some (acc * 10 + (c - 48)) else None)"
| "digits_value acc (c # d # cs) =
     (if is_digit c then digits_value (acc * 10 + (c - 48)) (d # cs)
      else if c = 95 \<and> is_digit d then digits_value acc (d # cs)
      else None)"

definition unsigned_literal :: "pystr \<Rightarrow> nat option" where
  "unsigned_literal cs =
     (case cs of [] \<Rightarrow> None | c # _ \<Rightarrow> if is_digit c then digits_value 0 cs else None)"

definition signed_literal :: "pystr \<Rightarrow> int option" where
  "signed_literal s =
     (case s of
        [] \<Rightarrow> None
      | c # cs \<Rightarrow>
          (if c = 45 then map_option (\<lambda>n. - int n) (unsigned_literal cs)
           else if c = 43 then map_option int (unsigned_literal cs)
           else map_option int (unsigned_literal (c # cs))))"

definition ascii_space :: "nat \<Rightarrow> bool" where
  "ascii_space c \<longleftrightarrow> (9 \<le> c \<and> c \<le> 13) \<or> c = 32"

definition strip_ascii :: "pystr \<Rightarrow> pystr" where
  "strip_ascii s = rev (dropWhile ascii_space (rev (dropWhile ascii_space s)))"

definition ascii_int_of_text :: "pystr \<Rightarrow> int option" where
  "ascii_int_of_text s = signed_literal (strip_ascii s)"

definition ascii_int_of_bytes :: "string \<Rightarrow> int option" where
  "ascii_int_of_bytes b = signed_literal (strip_ascii (map of_char b))"

definition ascii_lower :: "pystr \<Rightarrow> pystr" where
  "ascii_lower s = map (\<lambda>c. if 65 \<le> c \<and> c \<le> 90 then c + 32 else c) s"

definition kind_repr :: "pyfloat \<Rightarrow> pystr" where
  "kind_repr f =
     (case f of Finite q \<Rightarrow> asc ''float'' | PosInf \<Rightarrow> asc ''inf'' | NegInf \<Rightarrow> asc ''-inf''
      | NaN \<Rightarrow> asc ''nan'')"

definition ascii_runtime :: runtime where
  "ascii_runtime =
     \<lparr> int_of_text = ascii_int_of_text, int_of_bytes = ascii_int_of_bytes,
       float_repr = kind_repr, str_lower = ascii_lower \<rparr>"

text \<open>Columns declared without a type store every value as it was bound.\<close>

definition no_affinity :: "string \<Rightarrow> sqlval \<Rightarrow> sqlval" where
  "no_affinity column v = v"

section \<open>Examples\<close>

definition row_with_description :: "sqlval \<Rightarrow> row" where
  "row_with_description d =
     [''id'' \<mapsto> VInt 1, ''company'' \<mapsto> VText (asc ''Acme''), ''czym_zajmuje_sie_firma'' \<mapsto> d]"

definition row_with_nulls :: row where
  "row_with_nulls = [''id'' \<mapsto> VInt 2, ''company'' \<mapsto> VNull, ''stand'' \<mapsto> VNull]"

definition row_with_hooks :: "sqlval \<Rightarrow> sqlval \<Rightarrow> sqlval \<Rightarrow> row" where
  "row_with_hooks h1 h2 h3 =
     [''id'' \<mapsto> VInt 3, ''zaczepka1'' \<mapsto> h1, ''zaczepka2'' \<mapsto> h2, ''zaczepka3'' \<mapsto> h3]"

definition row_with_priority :: "sqlval \<Rightarrow> row" where
  "row_with_priority p = [''id'' \<mapsto> VInt 4, ''czy_warto_sie_zainteresowac'' \<mapsto> p]"

definition example_db :: storage where
  "example_db =
     \<lparr> db_file_exists = True,
       companies_table = Some [row_with_description (VText (asc ''Pumps'')), row_with_nulls],
       open_connections = 0 \<rparr>"

definition all_rows_sql :: "string \<Rightarrow> pystr list \<Rightarrow> row list \<Rightarrow> error + row list" where
  "all_rows_sql query params rows = Inr rows"

definition infinite_priority_body :: json where
  "infinite_priority_body =
     JObj [(asc ''company'', JStr (asc ''Acme'')),
           (asc ''czy_warto_sie_zainteresowac'', JFloat PosInf)]"

definition created_row :: row where
  "created_row =
     map_of ((''id'', VInt 3) #
       stored_columns no_affinity
         [VText (asc ''Acme''), VNull, VNull, VNull, VNull, VNull, VNull, VNull, VNull, VReal PosInf])"

section \<open>Properties of the record transformer\<close>

lemma strip_empty_iff: "strip s = [] \<longleftrightarrow> list_all is_space s"
proof -
  have first: "dropWhile is_space s = [] \<longleftrightarrow> list_all is_space s"
    by (simp add: list_all_iff)
  have second: "dropWhile is_space (rev (dropWhile is_space s)) = [] \<longleftrightarrow> dropWhile is_space s = []"
  proof
    assume "dropWhile is_space (rev (dropWhile is_space s)) = []"
    then have a: "\<forall>c\<in>set (dropWhile is_space s). is_space c"
      by simp
    show "dropWhile is_space s = []"
    proof (rule ccontr)
      assume n: "dropWhile is_space s \<noteq> []"
      then have "\<not> is_space (hd (dropWhile is_space s))" by (rule hd_dropWhile)
      moreover have "hd (dropWhile is_space s) \<in> set (dropWhile is_space s)" using n by simp
      ultimately show False using a by blast
    qed
  next
    assume "dropWhile is_space s = []"
    then show "dropWhile is_space (rev (dropWhile is_space s)) = []"
      by (simp del: dropWhile_eq_Nil_conv)
  qed
  show ?thesis unfolding strip_def using first second by simp
qed

lemma hooks_loop_closed:
  "hooks_loop rt row_dict keys acc =
     acc @ map (\<lambda>v. strip (py_str rt v))
             (filter (\<lambda>v. py_truthy v \<and> strip (py_str rt v) \<noteq> []) (map (dict_get row_dict) keys))"
  by (induction keys arbitrary: acc) (simp_all add: Let_def)

lemma transform_fields:
  "transform_company_data rt row_dict = Inr c \<Longrightarrow>
     normalize_rarity rt (dict_get row_dict ''czy_warto_sie_zainteresowac'') = Inr (rarity c) \<and>
     short_description rt row_dict = Inr (shortDescription c) \<and>
     hooks c = hooks_loop rt row_dict [''zaczepka1'', ''zaczepka2'', ''zaczepka3''] [] \<and>
     name c = dict_get_default row_dict ''company'' (VText []) \<and>
     boothNumber c = dict_get_default row_dict ''stand'' (VText []) \<and>
     country c = dict_get_default row_dict ''country'' (VText []) \<and>
     api_id c = dict_get row_dict ''id'' \<and>
     description c = dict_get_default row_dict ''czym_zajmuje_sie_firma'' (VText []) \<and>
     problems c = dict_get_default row_dict ''problemy_i_wyzwania'' (VText []) \<and>
     opportunities c = dict_get_default row_dict ''mozliwosci_AI_i_danych'' (VText [])"
  unfolding transform_company_data_def Let_def
  by (cases "normalize_rarity rt (dict_get row_dict ''czy_warto_sie_zainteresowac'')";
      cases "short_description rt row_dict") auto

lemma transform_returns:
  "normalize_rarity rt (dict_get row_dict ''czy_warto_sie_zainteresowac'') = Inr n \<Longrightarrow>
   short_description rt row_dict = Inr d \<Longrightarrow>
   \<exists>c. transform_company_data rt row_dict = Inr c"
  by (simp add: transform_company_data_def Let_def)

lemma trunc_small: "trunc q \<in> {0, 1, 2} \<longleftrightarrow> - 1 < q \<and> q < 3"
  unfolding trunc_def by (auto; linarith)

lemma rarity_int: "normalize_rarity rt (VInt i) = Inr (if i = 0 \<or> i = 1 \<or> i = 2 then i else 0)"
  by (simp add: normalize_rarity_def)

lemma rarity_real:
  "normalize_rarity rt (VReal (Finite q)) = Inr (if 0 \<le> q \<and> q < 3 then \<lfloor>q\<rfloor> else 0)"
proof -
  have "normalize_rarity rt (VReal (Finite q)) = Inr (if trunc q \<in> {0, 1, 2} then trunc q else 0)"
    by (simp add: normalize_rarity_def)
  also have "(if trunc q \<in> {0, 1, 2} then trunc q else 0) = (if 0 \<le> q \<and> q < 3 then \<lfloor>q\<rfloor> else 0)"
  proof (cases "0 \<le> q")
    case True
    then show ?thesis using trunc_small [of q] by (auto simp add: trunc_def)
  next
    case False
    then have "trunc q \<in> {0, 1, 2} \<Longrightarrow> trunc q = 0"
      unfolding trunc_def by (auto; linarith)
    with False show ?thesis by auto
  qed
  finally show ?thesis .
qed

lemma rarity_text:
  "normalize_rarity rt (VText s) =
     Inr (case int_of_text rt s of None \<Rightarrow> 0 | Some n \<Rightarrow> if n = 0 \<or> n = 1 \<or> n = 2 then n else 0)"
  by (simp add: normalize_rarity_def split: option.splits)

lemma rarity_blob:
  "normalize_rarity rt (VBlob b) =
     Inr (case int_of_bytes rt b of None \<Rightarrow> 0 | Some n \<Rightarrow> if n = 0 \<or> n = 1 \<or> n = 2 then n else 0)"
  by (simp add: normalize_rarity_def split: option.splits)

lemma rarity_range: "normalize_rarity rt v = Inr n \<Longrightarrow> n = 0 \<or> n = 1 \<or> n = 2"
  by (auto simp add: normalize_rarity_def split: if_splits sum.splits)

lemma py_int_raises: "py_int rt v = Inl e \<Longrightarrow> e = ValueError \<or> e = TypeError \<or> ((v = VReal PosInf \<or> v = VReal NegInf) \<and> e = OverflowError)"
  by (induction rt v rule: py_int.induct) (auto split: option.splits)

lemma rarity_raises:
  "normalize_rarity rt v = Inl e \<Longrightarrow> (v = VReal PosInf \<or> v = VReal NegInf) \<and> e = OverflowError"
  using py_int_raises [of rt v]
  by (auto simp add: normalize_rarity_def split: if_splits sum.splits)

lemma rarity_returns:
  "v \<noteq> VReal PosInf \<Longrightarrow> v \<noteq> VReal NegInf \<Longrightarrow> \<exists>n. normalize_rarity rt v = Inr n"
  using rarity_raises [of rt v] by (cases "normalize_rarity rt v") auto

lemma short_description_text:
  "dict_get row_dict ''czym_zajmuje_sie_firma'' = VText s \<Longrightarrow>
   short_description rt row_dict = Inr (VText (spec_short_description (Some s)))"
  by (auto simp add: short_description_def spec_short_description_def slice100_dots_def
        dict_get_def dict_get_default_def split: option.splits)

lemma short_description_null:
  "dict_get row_dict ''czym_zajmuje_sie_firma'' = VNull \<Longrightarrow>
   short_description rt row_dict = Inr (VText (spec_short_description None))"
  by (auto simp add: short_description_def spec_short_description_def
        dict_get_def dict_get_default_def split: option.splits)

text \<open>
  Claim C4. For a row whose business description is a text \<open>s\<close> and whose priority is
  not an infinite float, \<open>transform_company_data\<close> returns a record, and its
  \<open>shortDescription\<close> is the first 100 characters of \<open>s\<close> followed by \<open>...\<close> when
  \<open>s\<close> is longer than 100 characters, \<open>s\<close> itself when it is not empty and at most 100
  characters long, and the fixed placeholder when \<open>s\<close> is empty; for a null (or missing)
  description it is the placeholder. The expression of lines 172 to 174 itself raises
  nothing in these cases, whatever the priority, and the \<open>shortDescription\<close> of every
  record that is returned is its value.
\<close>

theorem short_description_derivation:
  "(dict_get row_dict ''czym_zajmuje_sie_firma'' = VText s \<and>
    dict_get row_dict ''czy_warto_sie_zainteresowac'' \<noteq> VReal PosInf \<and>
    dict_get row_dict ''czy_warto_sie_zainteresowac'' \<noteq> VReal NegInf \<longrightarrow>
      (\<exists>c. transform_company_data rt row_dict = Inr c \<and>
           shortDescription c = VText (spec_short_description (Some s)))) \<and>
   (dict_get row_dict ''czym_zajmuje_sie_firma'' = VNull \<and>
    dict_get row_dict ''czy_warto_sie_zainteresowac'' \<noteq> VReal PosInf \<and>
    dict_get row_dict ''czy_warto_sie_zainteresowac'' \<noteq> VReal NegInf \<longrightarrow>
      (\<exists>c. transform_company_data rt row_dict = Inr c \<and>
           shortDescription c = VText (spec_short_description None))) \<and>
   (dict_get row_dict ''czym_zajmuje_sie_firma'' = VText s \<longrightarrow>
      short_description rt row_dict = Inr (VText (spec_short_description (Some s)))) \<and>
   (dict_get row_dict ''czym_zajmuje_sie_firma'' = VNull \<longrightarrow>
      short_description rt row_dict = Inr (VText (spec_short_description None))) \<and>
   (transform_company_data rt row_dict = Inr c \<longrightarrow>
      short_description rt row_dict = Inr (shortDescription c))"
proof -
  have returned: "\<exists>c. transform_company_data rt row_dict = Inr c \<and> shortDescription c = d"
    if finite: "dict_get row_dict ''czy_warto_sie_zainteresowac'' \<noteq> VReal PosInf"
               "dict_get row_dict ''czy_warto_sie_zainteresowac'' \<noteq> VReal NegInf"
      and short: "short_description rt row_dict = Inr d" for d
  proof -
    from finite obtain n where
        "normalize_rarity rt (dict_get row_dict ''czy_warto_sie_zainteresowac'') = Inr n"
      using rarity_returns by blast
    with short obtain c where c: "transform_company_data rt row_dict = Inr c"
      using transform_returns by blast
    with short transform_fields [OF c] show ?thesis by auto
  qed
  show ?thesis
    using returned short_description_text [of row_dict s rt] short_description_null [of row_dict rt]
      transform_fields [of rt row_dict c]
    by blast
qed

lemma row_with_description_fields:
  "dict_get (row_with_description d) ''czym_zajmuje_sie_firma'' = d"
  "dict_get (row_with_description d) ''czy_warto_sie_zainteresowac'' = VNull"
  by (simp_all add: row_with_description_def dict_get_def)

lemma row_with_description_transform:
  "transform_company_data ascii_runtime (row_with_description (VText (replicate 150 97))) =
     Inr \<lparr> api_id = VInt 1, name = VText (asc ''Acme''), boothNumber = VText [], country = VText [],
           positions = [check_on_site], shortDescription = VText (replicate 100 97 @ asc ''...''),
           description = VText (replicate 150 97), problems = VText [], opportunities = VText [],
           rarity = 0, hooks = [] \<rparr>"
  by (simp add: transform_company_data_def row_with_description_def normalize_rarity_def
      short_description_def dict_get_def dict_get_default_def slice100_dots_def Let_def)

theorem short_description_derivation_witness:
  "transform_company_data ascii_runtime (row_with_description (VText (replicate 150 97))) =
     Inr \<lparr> api_id = VInt 1, name = VText (asc ''Acme''), boothNumber = VText [], country = VText [],
           positions = [check_on_site], shortDescription = VText (replicate 100 97 @ asc ''...''),
           description = VText (replicate 150 97), problems = VText [], opportunities = VText [],
           rarity = 0, hooks = [] \<rparr> \<and>
   (\<exists>c. transform_company_data ascii_runtime (row_with_description (VText (replicate 150 97))) = Inr c \<and>
        shortDescription c = VText (replicate 100 97 @ asc ''...'')) \<and>
   (\<exists>c. transform_company_data ascii_runtime (row_with_description (VText (replicate 50 97))) = Inr c \<and>
        shortDescription c = VText (replicate 50 97)) \<and>
   (\<exists>c. transform_company_data ascii_runtime (row_with_description (VText [])) = Inr c \<and>
        shortDescription c = VText check_details) \<and>
   (\<exists>c. transform_company_data ascii_runtime (row_with_description VNull) = Inr c \<and>
        shortDescription c = VText check_details) \<and>
   short_description ascii_runtime (row_with_description (VText (replicate 150 97)))
     = Inr (VText (replicate 100 97 @ asc ''...''))"
  using
    short_description_derivation [of "row_with_description (VText (replicate 150 97))"
      "replicate 150 97" ascii_runtime
      "\<lparr> api_id = VInt 1, name = VText (asc ''Acme''), boothNumber = VText [], country = VText [],
         positions = [check_on_site], shortDescription = VText (replicate 100 97 @ asc ''...''),
         description = VText (replicate 150 97), problems = VText [], opportunities = VText [],
         rarity = 0, hooks = [] \<rparr>"]
    short_description_derivation [of "row_with_description (VText (replicate 50 97))"
      "replicate 50 97" ascii_runtime]
    short_description_derivation [of "row_with_description (VText [])" "[]" ascii_runtime]
    short_description_derivation [of "row_with_description VNull" "[]" ascii_runtime]
    row_with_description_transform
  by (simp add: row_with_description_fields spec_short_description_def)

text \<open>
  Claim C10. In every record that \<open>transform_company_data\<close> returns, \<open>name\<close>,
  \<open>boothNumber\<close> and \<open>country\<close> are the values of the columns \<open>company\<close>, \<open>stand\<close> and
  \<open>country\<close> of the row as they are: a column that is present with a null gives null, and
  the empty text is the value only of a column that is missing from the row (or that holds
  the empty text itself).
\<close>

theorem null_columns_pass_through:
  assumes "transform_company_data rt row_dict = Inr c"
  shows "(row_dict ''company'' = Some VNull \<longrightarrow> name c = VNull) \<and>
         (row_dict ''stand'' = Some VNull \<longrightarrow> boothNumber c = VNull) \<and>
         (row_dict ''country'' = Some VNull \<longrightarrow> country c = VNull) \<and>
         name c = (case row_dict ''company'' of None \<Rightarrow> VText [] | Some v \<Rightarrow> v) \<and>
         boothNumber c = (case row_dict ''stand'' of None \<Rightarrow> VText [] | Some v \<Rightarrow> v) \<and>
         country c = (case row_dict ''country'' of None \<Rightarrow> VText [] | Some v \<Rightarrow> v)"
  using transform_fields [OF assms] by (simp add: dict_get_default_def)

lemma row_with_nulls_transform:
  "transform_company_data ascii_runtime row_with_nulls =
     Inr \<lparr> api_id = VInt 2, name = VNull, boothNumber = VNull, country = VText [],
           positions = [check_on_site], shortDescription = VText check_details,
           description = VText [], problems = VText [], opportunities = VText [],
           rarity = 0, hooks = [] \<rparr>"
  by (simp add: transform_company_data_def row_with_nulls_def normalize_rarity_def
      short_description_def dict_get_def dict_get_default_def Let_def)

theorem null_columns_pass_through_witness:
  "transform_company_data ascii_runtime row_with_nulls =
     Inr \<lparr> api_id = VInt 2, name = VNull, boothNumber = VNull, country = VText [],
           positions = [check_on_site], shortDescription = VText check_details,
           description = VText [], problems = VText [], opportunities = VText [],
           rarity = 0, hooks = [] \<rparr> \<and>
   row_with_nulls ''company'' = Some VNull \<and> row_with_nulls ''stand'' = Some VNull \<and>
   row_with_nulls ''country'' = None \<and>
   name \<lparr> api_id = VInt 2, name = VNull, boothNumber = VNull, country = VText [],
           positions = [check_on_site], shortDescription = VText check_details,
           description = VText [], problems = VText [], opportunities = VText [],
           rarity = 0, hooks = [] \<rparr> = VNull"
  using null_columns_pass_through [OF row_with_nulls_transform] row_with_nulls_transform
  by (simp add: row_with_nulls_def)

lemma field_text_simps:
  "field_text VNull = []" "field_text (VText s) = s"
  by (simp_all add: field_text_def)

lemma hooks_text_or_null:
  "list_all text_or_null vs \<Longrightarrow>
   map (\<lambda>v. strip (py_str rt v)) (filter (\<lambda>v. py_truthy v \<and> \<not> blank (py_str rt v)) vs)
     = spec_hooks (map field_text vs)"
proof (induction vs)
  case Nil
  then show ?case by (simp add: spec_hooks_def)
next
  case (Cons v vs)
  then have rest: "map (\<lambda>v. strip (py_str rt v)) (filter (\<lambda>v. py_truthy v \<and> \<not> blank (py_str rt v)) vs)
     = map strip (filter (\<lambda>s. \<not> blank s) (map field_text vs))" by (simp add: spec_hooks_def)
  from Cons.prems have "text_or_null v" by simp
  then show ?case
  proof (cases v)
    case VNull
    have "blank []" by (simp add: blank_def)
    with rest VNull show ?thesis by (simp add: spec_hooks_def field_text_simps)
  next
    case (VText s)
    have "\<not> blank s \<Longrightarrow> s \<noteq> []" by (auto simp add: blank_def)
    with rest VText show ?thesis by (auto simp add: spec_hooks_def field_text_simps)
  qed (simp_all add: text_or_null_def)
qed

text \<open>
  Claim C5. In every record that \<open>transform_company_data\<close> returns, \<open>hooks\<close> lists, in the
  order hook1, hook2, hook3, the trimmed texts of the hook columns whose value is truthy and
  whose text is not blank (not empty and not white space only); a non-text value enters
  through \<open>str\<close>. When the three columns hold texts or nulls (or are missing), this is the
  specification's list: the trimmed values of the fields that are not blank, in order.
\<close>

theorem hook_extraction:
  assumes "transform_company_data rt row_dict = Inr c"
  shows "hooks c =
           map (\<lambda>v. strip (py_str rt v))
             (filter (\<lambda>v. py_truthy v \<and> \<not> blank (py_str rt v))
               (map (dict_get row_dict) [''zaczepka1'', ''zaczepka2'', ''zaczepka3''])) \<and>
         (list_all (\<lambda>k. text_or_null (dict_get row_dict k)) [''zaczepka1'', ''zaczepka2'', ''zaczepka3'']
            \<longrightarrow> hooks c =
              spec_hooks (map (\<lambda>k. field_text (dict_get row_dict k))
                [''zaczepka1'', ''zaczepka2'', ''zaczepka3'']))"
proof -
  let ?vs = "map (dict_get row_dict) [''zaczepka1'', ''zaczepka2'', ''zaczepka3'']"
  have closed: "hooks c =
      map (\<lambda>v. strip (py_str rt v)) (filter (\<lambda>v. py_truthy v \<and> \<not> blank (py_str rt v)) ?vs)"
    using transform_fields [OF assms]
    by (simp only: hooks_loop_closed blank_def strip_empty_iff append_Nil)
  have "list_all text_or_null ?vs \<Longrightarrow> hooks c = spec_hooks (map field_text ?vs)"
    using closed hooks_text_or_null [of ?vs rt] by simp
  then show ?thesis using closed by (simp add: comp_def)
qed

lemma row_with_hooks_transform:
  "transform_company_data ascii_runtime
      (row_with_hooks (VText []) (VText (asc ''  '')) (VText (asc '' Ask about pricing ''))) =
     Inr \<lparr> api_id = VInt 3, name = VText [], boothNumber = VText [], country = VText [],
           positions = [check_on_site], shortDescription = VText check_details,
           description = VText [], problems = VText [], opportunities = VText [],
           rarity = 0, hooks = [asc ''Ask about pricing''] \<rparr>"
  by (simp add: transform_company_data_def row_with_hooks_def normalize_rarity_def
      short_description_def dict_get_def dict_get_default_def Let_def strip_def is_space_def asc_def)

theorem hook_extraction_witness:
  "transform_company_data ascii_runtime
      (row_with_hooks (VText []) (VText (asc ''  '')) (VText (asc '' Ask about pricing ''))) =
     Inr \<lparr> api_id = VInt 3, name = VText [], boothNumber = VText [], country = VText [],
           positions = [check_on_site], shortDescription = VText check_details,
           description = VText [], problems = VText [], opportunities = VText [],
           rarity = 0, hooks = [asc ''Ask about pricing''] \<rparr> \<and>
   list_all (\<lambda>k. text_or_null
       (dict_get (row_with_hooks (VText []) (VText (asc ''  '')) (VText (asc '' Ask about pricing ''))) k))
     [''zaczepka1'', ''zaczepka2'', ''zaczepka3''] \<and>
   spec_hooks [[], asc ''  '', asc '' Ask about pricing ''] = [asc ''Ask about pricing'']"
  using hook_extraction [OF row_with_hooks_transform] row_with_hooks_transform
  by (simp add: row_with_hooks_def dict_get_def text_or_null_def field_text_def spec_hooks_def
      blank_def strip_def is_space_def asc_def)

text \<open>
  Claim C3, as amended. The rarity is 0 for a null priority; an integer 0, 1 or 2 maps to
  itself and every other integer to 0; a finite float is truncated towards zero, so that it
  maps to its integer part when that is 0, 1 or 2 (1.5 maps to 1) and to 0 otherwise; a
  float that is not a number maps to 0; a text or a bytes value maps to the integer
  \<open>int\<close> parses from it when that is 0, 1 or 2, and to 0 when it parses as another
  integer or does not parse. None of these raises. Whatever rarity is returned is 0, 1 or 2,
  and it is the \<open>rarity\<close> of the record \<open>transform_company_data\<close> returns.
\<close>

theorem rarity_normalization:
  "normalize_rarity rt VNull = Inr 0 \<and>
   normalize_rarity rt (VInt i) = Inr (if i = 0 \<or> i = 1 \<or> i = 2 then i else 0) \<and>
   normalize_rarity rt (VReal (Finite q)) = Inr (if 0 \<le> q \<and> q < 3 then \<lfloor>q\<rfloor> else 0) \<and>
   normalize_rarity rt (VReal NaN) = Inr 0 \<and>
   normalize_rarity rt (VText s) =
     Inr (case int_of_text rt s of None \<Rightarrow> 0 | Some n \<Rightarrow> if n = 0 \<or> n = 1 \<or> n = 2 then n else 0) \<and>
   normalize_rarity rt (VBlob b) =
     Inr (case int_of_bytes rt b of None \<Rightarrow> 0 | Some n \<Rightarrow> if n = 0 \<or> n = 1 \<or> n = 2 then n else 0) \<and>
   (normalize_rarity rt v = Inr n \<longrightarrow> n = 0 \<or> n = 1 \<or> n = 2) \<and>
   (transform_company_data rt row_dict = Inr c \<longrightarrow>
      normalize_rarity rt (dict_get row_dict ''czy_warto_sie_zainteresowac'') = Inr (rarity c))"
proof -
  have null: "normalize_rarity rt VNull = Inr 0"
    by (simp add: normalize_rarity_def)
  have nan: "normalize_rarity rt (VReal NaN) = Inr 0"
    by (simp add: normalize_rarity_def)
  show ?thesis
    using null nan rarity_int [of rt i] rarity_real [of rt q] rarity_text [of rt s]
      rarity_blob [of rt b] rarity_range [of rt v n] transform_fields [of rt row_dict c]
    by blast
qed

lemma row_with_priority_transform:
  "transform_company_data ascii_runtime (row_with_priority (VText (asc '' 2 ''))) =
     Inr \<lparr> api_id = VInt 4, name = VText [], boothNumber = VText [], country = VText [],
           positions = [check_on_site], shortDescription = VText check_details,
           description = VText [], problems = VText [], opportunities = VText [],
           rarity = 2, hooks = [] \<rparr>"
  by (simp add: transform_company_data_def row_with_priority_def normalize_rarity_def
      short_description_def dict_get_def dict_get_default_def Let_def ascii_runtime_def
      ascii_int_of_text_def signed_literal_def unsigned_literal_def is_digit_def
      strip_ascii_def ascii_space_def asc_def)

lemma ascii_examples:
  "int_of_text ascii_runtime (asc '' 2 '') = Some 2"
  "int_of_text ascii_runtime (asc ''abc'') = None"
  "int_of_text ascii_runtime (asc ''5'') = Some 5"
  "int_of_bytes ascii_runtime ''1'' = Some 1"
  by (simp_all add: ascii_runtime_def ascii_int_of_text_def ascii_int_of_bytes_def
      signed_literal_def unsigned_literal_def is_digit_def strip_ascii_def ascii_space_def asc_def)

theorem rarity_normalization_witness:
  "normalize_rarity ascii_runtime VNull = Inr 0 \<and>
   normalize_rarity ascii_runtime (VInt 1) = Inr 1 \<and>
   normalize_rarity ascii_runtime (VInt 5) = Inr 0 \<and>
   normalize_rarity ascii_runtime (VReal (Finite 2)) = Inr 2 \<and>
   normalize_rarity ascii_runtime (VReal (Finite (5 / 2))) = Inr 2 \<and>
   normalize_rarity ascii_runtime (VReal (Finite (- 1 / 2))) = Inr 0 \<and>
   normalize_rarity ascii_runtime (VText (asc '' 2 '')) = Inr 2 \<and>
   normalize_rarity ascii_runtime (VText (asc ''abc'')) = Inr 0 \<and>
   normalize_rarity ascii_runtime (VText (asc ''5'')) = Inr 0 \<and>
   normalize_rarity ascii_runtime (VBlob ''1'') = Inr 1 \<and>
   normalize_rarity ascii_runtime
     (dict_get (row_with_priority (VText (asc '' 2 ''))) ''czy_warto_sie_zainteresowac'') = Inr 2 \<and>
   transform_company_data ascii_runtime (row_with_priority (VText (asc '' 2 ''))) =
     Inr \<lparr> api_id = VInt 4, name = VText [], boothNumber = VText [], country = VText [],
           positions = [check_on_site], shortDescription = VText check_details,
           description = VText [], problems = VText [], opportunities = VText [],
           rarity = 2, hooks = [] \<rparr>"
  using
    rarity_normalization [of ascii_runtime 1 2 "asc '' 2 ''" "''1''" "VInt 1" 1
      "row_with_priority (VText (asc '' 2 ''))"
      "\<lparr> api_id = VInt 4, name = VText [], boothNumber = VText [], country = VText [],
           positions = [check_on_site], shortDescription = VText check_details,
           description = VText [], problems = VText [], opportunities = VText [],
           rarity = 2, hooks = [] \<rparr>"]
    rarity_normalization [of ascii_runtime 5 "5 / 2" "asc ''abc''" "''1''" "VInt 1" 1]
    rarity_normalization [of ascii_runtime 5 "- 1 / 2" "asc ''5''" "''1''" "VInt 1" 1]
    row_with_priority_transform ascii_examples
  by simp

text \<open>
  The claim as the specification words it (every value other than 0, 1, 2 and their
  representations maps to 0) fails at the float 1.5, which the code maps to 1.
\<close>

theorem rarity_other_value_counterexample:
  "normalize_rarity ascii_runtime (VReal (Finite (3 / 2))) = Inr 1 \<and>
   spec_rarity ascii_runtime (VReal (Finite (3 / 2))) = 0"
  by (simp add: normalize_rarity_def trunc_def spec_rarity_def represented_int_def)

text \<open>
  An infinite float is outside the amended claim: \<open>int\<close> raises \<open>OverflowError\<close>, which
  \<open>except (ValueError, TypeError)\<close> does not catch.
\<close>

lemma rarity_infinity:
  "normalize_rarity rt (VReal PosInf) = Inl OverflowError"
  "normalize_rarity rt (VReal NegInf) = Inl OverflowError"
  by (simp_all add: normalize_rarity_def)

section \<open>Properties of the query builder\<close>

lemma tokens_disjoint: "x \<in> set no_tokens \<Longrightarrow> x \<notin> set yes_tokens"
  by (auto simp add: yes_tokens_def no_tokens_def asc_def)

lemma build_query_unfold:
  "build_query rt search search_by priority =
     ((if fst (search_conditions search search_by) @ fst (priority_conditions rt priority) \<noteq> []
       then ''SELECT * FROM companies WHERE ''
              @ join '' AND '' (fst (search_conditions search search_by) @ fst (priority_conditions rt priority))
       else ''SELECT * FROM companies'') @ '' ORDER BY company ASC'',
      snd (search_conditions search search_by) @ snd (priority_conditions rt priority))"
  by (simp add: build_query_def Let_def)

text \<open>
  Claim C6. For a priority token that is not empty: when its lower-case form is one of
  \<open>tak\<close>, \<open>yes\<close>, \<open>1\<close>, \<open>true\<close>, \<open>warto\<close>, the statement gets the disjunction
  that matches the stored values \<open>'1'\<close>, \<open>'tak'\<close>, \<open>'yes'\<close> and no parameter; when
  it is one of \<open>nie\<close>, \<open>no\<close>, \<open>0\<close>, \<open>false\<close>, the disjunction that matches
  \<open>'0'\<close>, \<open>'nie'\<close>, \<open>'no'\<close>; for every other token an exact-match condition whose
  parameter is the token as it was given. The condition follows the search condition,
  if any, joined by \<open>AND\<close>.
\<close>

theorem priority_filter_expansion:
  assumes "priority \<noteq> []"
  shows
   "(str_lower rt priority \<in> {asc ''tak'', asc ''yes'', asc ''1'', asc ''true'', asc ''warto''} \<longrightarrow>
       build_query rt search search_by priority =
         (''SELECT * FROM companies WHERE ''
            @ join '' AND '' (fst (search_conditions search search_by) @
                [''(czy_warto_sie_zainteresowac = '1' OR czy_warto_sie_zainteresowac = 'tak' OR czy_warto_sie_zainteresowac = 'yes')''])
            @ '' ORDER BY company ASC'',
          snd (search_conditions search search_by))) \<and>
    (str_lower rt priority \<in> {asc ''nie'', asc ''no'', asc ''0'', asc ''false''} \<longrightarrow>
       build_query rt search search_by priority =
         (''SELECT * FROM companies WHERE ''
            @ join '' AND '' (fst (search_conditions search search_by) @
                [''(czy_warto_sie_zainteresowac = '0' OR czy_warto_sie_zainteresowac = 'nie' OR czy_warto_sie_zainteresowac = 'no')''])
            @ '' ORDER BY company ASC'',
          snd (search_conditions search search_by))) \<and>
    (str_lower rt priority \<notin> {asc ''tak'', asc ''yes'', asc ''1'', asc ''true'', asc ''warto'',
                                asc ''nie'', asc ''no'', asc ''0'', asc ''false''} \<longrightarrow>
       build_query rt search search_by priority =
         (''SELECT * FROM companies WHERE ''
            @ join '' AND '' (fst (search_conditions search search_by) @ [''czy_warto_sie_zainteresowac = ?''])
            @ '' ORDER BY company ASC'',
          snd (search_conditions search search_by) @ [priority]))"
proof -
  have yes: "set yes_tokens = {asc ''tak'', asc ''yes'', asc ''1'', asc ''true'', asc ''warto''}"
    by (simp add: yes_tokens_def)
  have no: "set no_tokens = {asc ''nie'', asc ''no'', asc ''0'', asc ''false''}"
    by (simp add: no_tokens_def)
  have a: "str_lower rt priority \<in> set yes_tokens \<Longrightarrow>
      priority_conditions rt priority = ([yes_condition], [])"
    using assms by (simp add: priority_conditions_def)
  have b: "str_lower rt priority \<in> set no_tokens \<Longrightarrow>
      priority_conditions rt priority = ([no_condition], [])"
    using assms tokens_disjoint [of "str_lower rt priority"] by (simp add: priority_conditions_def)
  have c: "str_lower rt priority \<notin> set yes_tokens \<Longrightarrow> str_lower rt priority \<notin> set no_tokens \<Longrightarrow>
      priority_conditions rt priority = ([''czy_warto_sie_zainteresowac = ?''], [priority])"
    using assms by (simp add: priority_conditions_def)
  have 1: "str_lower rt priority \<in> set yes_tokens \<Longrightarrow>
       build_query rt search search_by priority =
         (''SELECT * FROM companies WHERE ''
            @ join '' AND '' (fst (search_conditions search search_by) @ [yes_condition])
            @ '' ORDER BY company ASC'',
          snd (search_conditions search search_by))"
    by (simp add: build_query_unfold a)
  have 2: "str_lower rt priority \<in> set no_tokens \<Longrightarrow>
       build_query rt search search_by priority =
         (''SELECT * FROM companies WHERE ''
            @ join '' AND '' (fst (search_conditions search search_by) @ [no_condition])
            @ '' ORDER BY company ASC'',
          snd (search_conditions search search_by))"
    by (simp add: build_query_unfold b)
  have 3: "str_lower rt priority \<notin> set yes_tokens \<Longrightarrow> str_lower rt priority \<notin> set no_tokens \<Longrightarrow>
       build_query rt search search_by priority =
         (''SELECT * FROM companies WHERE ''
            @ join '' AND '' (fst (search_conditions search search_by) @ [''czy_warto_sie_zainteresowac = ?''])
            @ '' ORDER BY company ASC'',
          snd (search_conditions search search_by) @ [priority])"
    by (simp add: build_query_unfold c)
  from 1 2 3 show ?thesis
    unfolding yes no yes_condition_def no_condition_def by blast
qed


lemma ascii_lower_examples:
  "str_lower ascii_runtime (asc ''TAK'') = asc ''tak''"
  "str_lower ascii_runtime (asc ''False'') = asc ''false''"
  "str_lower ascii_runtime (asc ''2'') = asc ''2''"
  by (simp_all add: ascii_runtime_def ascii_lower_def asc_def)

theorem priority_filter_expansion_witness:
  "asc ''TAK'' \<noteq> [] \<and>
   str_lower ascii_runtime (asc ''TAK'') \<in> {asc ''tak'', asc ''yes'', asc ''1'', asc ''true'', asc ''warto''} \<and>
   build_query ascii_runtime [] (asc ''company'') (asc ''TAK'') =
     (''SELECT * FROM companies WHERE (czy_warto_sie_zainteresowac = '1' OR czy_warto_sie_zainteresowac = 'tak' OR czy_warto_sie_zainteresowac = 'yes') ORDER BY company ASC'',
      []) \<and>
   str_lower ascii_runtime (asc ''False'') \<in> {asc ''nie'', asc ''no'', asc ''0'', asc ''false''} \<and>
   build_query ascii_runtime [] (asc ''company'') (asc ''False'') =
     (''SELECT * FROM companies WHERE (czy_warto_sie_zainteresowac = '0' OR czy_warto_sie_zainteresowac = 'nie' OR czy_warto_sie_zainteresowac = 'no') ORDER BY company ASC'',
      []) \<and>
   str_lower ascii_runtime (asc ''2'') \<notin> {asc ''tak'', asc ''yes'', asc ''1'', asc ''true'', asc ''warto'',
                                asc ''nie'', asc ''no'', asc ''0'', asc ''false''} \<and>
   build_query ascii_runtime [] (asc ''company'') (asc ''2'') =
     (''SELECT * FROM companies WHERE czy_warto_sie_zainteresowac = ? ORDER BY company ASC'',
      [asc ''2''])"
  using
    priority_filter_expansion [of "asc ''TAK''" ascii_runtime "[]" "asc ''company''"]
    priority_filter_expansion [of "asc ''False''" ascii_runtime "[]" "asc ''company''"]
    priority_filter_expansion [of "asc ''2''" ascii_runtime "[]" "asc ''company''"]
  by (simp add: ascii_lower_examples search_conditions_def) (simp add: asc_def)

lemma search_ignored:
  "search_by \<noteq> asc ''company'' \<Longrightarrow> search_by \<noteq> asc ''stand'' \<Longrightarrow>
   search_conditions search search_by = ([], [])"
  by (simp add: search_conditions_def)

lemma request_query_unfold:
  "request_query rt args =
     build_query rt (strip (args_get args ''search'' [])) (args_get args ''searchBy'' (asc ''company''))
       (args_get args ''priority'' [])"
  by (simp add: request_query_def Let_def)

lemma args_get_other:
  "k \<noteq> ''search'' \<Longrightarrow> args_get (args(''search'' := v)) k d = args_get args k d"
  by (simp add: args_get_def)

lemma strip_Nil: "strip [] = []"
  by (simp add: strip_def)

text \<open>
  Claim C7, as amended. The search text of a request is trimmed of surrounding white space
  first. When the trimmed text is not empty, the statement gets one \<open>LIKE ?\<close> condition,
  on the column \<open>company\<close> when the selector is \<open>company\<close> (also when no selector is
  given) and on \<open>stand\<close> when it is \<open>stand\<close>, with the parameter \<open>%text%\<close> made of the
  trimmed text. A search text that is empty after trimming adds no condition: the statement
  is that of the request without a search text. For every other selector no condition is
  added either, and \<open>get_companies\<close> answers the request as it answers the same request
  without the search text.
\<close>

theorem search_predicate:
  "(args ''search'' = Some raw \<and> strip raw \<noteq> [] \<and>
    args_get args ''searchBy'' (asc ''company'') = asc ''company'' \<longrightarrow>
      request_query rt args =
        (''SELECT * FROM companies WHERE ''
           @ join '' AND '' (''company LIKE ?'' # fst (priority_conditions rt (args_get args ''priority'' [])))
           @ '' ORDER BY company ASC'',
         (37 # strip raw @ [37]) # snd (priority_conditions rt (args_get args ''priority'' [])))) \<and>
   (args ''search'' = Some raw \<and> strip raw \<noteq> [] \<and>
    args_get args ''searchBy'' (asc ''company'') = asc ''stand'' \<longrightarrow>
      request_query rt args =
        (''SELECT * FROM companies WHERE ''
           @ join '' AND '' (''stand LIKE ?'' # fst (priority_conditions rt (args_get args ''priority'' [])))
           @ '' ORDER BY company ASC'',
         (37 # strip raw @ [37]) # snd (priority_conditions rt (args_get args ''priority'' [])))) \<and>
   (strip raw = [] \<longrightarrow>
      request_query rt (args(''search'' \<mapsto> raw)) = request_query rt (args(''search'' := None))) \<and>
   (args_get args ''searchBy'' (asc ''company'') \<noteq> asc ''company'' \<and>
    args_get args ''searchBy'' (asc ''company'') \<noteq> asc ''stand'' \<longrightarrow>
      request_query rt (args(''search'' \<mapsto> raw)) = request_query rt (args(''search'' := None)) \<and>
      get_companies sql rt (args(''search'' \<mapsto> raw)) db
        = get_companies sql rt (args(''search'' := None)) db)"
proof -
  let ?sb = "args_get args ''searchBy'' (asc ''company'')"
  let ?p = "args_get args ''priority'' []"
  have stand: "asc ''stand'' \<noteq> asc ''company''" by (simp add: asc_def)
  have trimmed: "args ''search'' = Some raw \<Longrightarrow> strip (args_get args ''search'' []) = strip raw"
    by (simp add: args_get_def)
  have 1: "args ''search'' = Some raw \<and> strip raw \<noteq> [] \<and> ?sb = asc ''company'' \<longrightarrow>
      request_query rt args =
        (''SELECT * FROM companies WHERE ''
           @ join '' AND '' (''company LIKE ?'' # fst (priority_conditions rt ?p))
           @ '' ORDER BY company ASC'',
         (37 # strip raw @ [37]) # snd (priority_conditions rt ?p))"
    using trimmed by (simp add: request_query_unfold build_query_unfold search_conditions_def)
  have 2: "args ''search'' = Some raw \<and> strip raw \<noteq> [] \<and> ?sb = asc ''stand'' \<longrightarrow>
      request_query rt args =
        (''SELECT * FROM companies WHERE ''
           @ join '' AND '' (''stand LIKE ?'' # fst (priority_conditions rt ?p))
           @ '' ORDER BY company ASC'',
         (37 # strip raw @ [37]) # snd (priority_conditions rt ?p))"
    using trimmed stand by (simp add: request_query_unfold build_query_unfold search_conditions_def)
  have with_text: "request_query rt (args(''search'' \<mapsto> raw)) = build_query rt (strip raw) ?sb ?p"
    by (simp add: request_query_unfold args_get_other) (simp add: args_get_def)
  have without: "request_query rt (args(''search'' := None)) = build_query rt [] ?sb ?p"
    by (simp add: request_query_unfold args_get_other) (simp add: args_get_def strip_Nil)
  have 3: "strip raw = [] \<longrightarrow>
      request_query rt (args(''search'' \<mapsto> raw)) = request_query rt (args(''search'' := None))"
    by (simp add: with_text without)
  have same: "?sb \<noteq> asc ''company'' \<and> ?sb \<noteq> asc ''stand'' \<longrightarrow>
      request_query rt (args(''search'' \<mapsto> raw)) = request_query rt (args(''search'' := None))"
    by (simp add: with_text without build_query_unfold search_ignored)
  have 4: "?sb \<noteq> asc ''company'' \<and> ?sb \<noteq> asc ''stand'' \<longrightarrow>
      get_companies sql rt (args(''search'' \<mapsto> raw)) db
        = get_companies sql rt (args(''search'' := None)) db"
  proof (intro impI)
    assume "?sb \<noteq> asc ''company'' \<and> ?sb \<noteq> asc ''stand''"
    with same have
      "request_query rt (args(''search'' \<mapsto> raw)) = request_query rt (args(''search'' := None))"
      by blast
    then show "get_companies sql rt (args(''search'' \<mapsto> raw)) db
        = get_companies sql rt (args(''search'' := None)) db"
      unfolding get_companies_def by (rule arg_cong)
  qed
  from 1 2 3 same 4 show ?thesis by blast
qed

lemma strip_examples:
  "strip (asc '' ab '') = asc ''ab''" "strip (asc '' '') = []" "strip (asc ''ab'') = asc ''ab''"
  by (simp_all add: strip_def is_space_def asc_def)

theorem search_predicate_witness:
  "strip (asc '' ab '') \<noteq> [] \<and>
   request_query ascii_runtime [''search'' \<mapsto> asc '' ab ''] =
     (''SELECT * FROM companies WHERE company LIKE ? ORDER BY company ASC'', [asc ''%ab%'']) \<and>
   request_query ascii_runtime [''searchBy'' \<mapsto> asc ''stand'', ''search'' \<mapsto> asc ''ab''] =
     (''SELECT * FROM companies WHERE stand LIKE ? ORDER BY company ASC'', [asc ''%ab%'']) \<and>
   strip (asc '' '') = [] \<and>
   request_query ascii_runtime [''search'' \<mapsto> asc '' ''] = request_query ascii_runtime Map.empty \<and>
   args_get [''searchBy'' \<mapsto> asc ''country''] ''searchBy'' (asc ''company'') \<noteq> asc ''company'' \<and>
   args_get [''searchBy'' \<mapsto> asc ''country''] ''searchBy'' (asc ''company'') \<noteq> asc ''stand'' \<and>
   request_query ascii_runtime [''searchBy'' \<mapsto> asc ''country'', ''search'' \<mapsto> asc ''ab''] =
     (''SELECT * FROM companies ORDER BY company ASC'', []) \<and>
   get_companies all_rows_sql ascii_runtime [''searchBy'' \<mapsto> asc ''country'', ''search'' \<mapsto> asc ''ab''] example_db
     = get_companies all_rows_sql ascii_runtime [''searchBy'' \<mapsto> asc ''country''] example_db"
  using
    search_predicate [of "[''search'' \<mapsto> asc '' ab '']" "asc '' ab ''" ascii_runtime]
    search_predicate [of "[''searchBy'' \<mapsto> asc ''stand'', ''search'' \<mapsto> asc ''ab'']" "asc ''ab''"
       ascii_runtime]
    search_predicate [of Map.empty "asc '' ''" ascii_runtime]
    search_predicate [of "[''searchBy'' \<mapsto> asc ''country'']" "asc ''ab''" ascii_runtime
       all_rows_sql example_db]
  by (simp add: strip_examples args_get_def priority_conditions_def)
     (simp add: asc_def request_query_unfold args_get_def build_query_unfold search_conditions_def
        priority_conditions_def strip_Nil)

text \<open>
  The claim as stated, for every search text that is not empty, fails at the text that is
  one space: with the selector \<open>company\<close> the statement has no condition. And a text with
  surrounding spaces is matched without them.
\<close>

theorem search_blank_text_counterexample:
  "asc '' '' \<noteq> [] \<and>
   request_query ascii_runtime [''search'' \<mapsto> asc '' '', ''searchBy'' \<mapsto> asc ''company''] =
     (''SELECT * FROM companies ORDER BY company ASC'', []) \<and>
   asc '' ab '' \<noteq> asc ''ab'' \<and>
   request_query ascii_runtime [''search'' \<mapsto> asc '' ab '', ''searchBy'' \<mapsto> asc ''company''] =
     (''SELECT * FROM companies WHERE company LIKE ? ORDER BY company ASC'', [asc ''%ab%''])"
  by (simp add: request_query_unfold args_get_def strip_examples build_query_unfold
      search_conditions_def priority_conditions_def)
     (simp add: asc_def)

section \<open>Properties of the route handlers\<close>













lemma example_db_rows:
  "companies_table example_db = Some [row_with_description (VText (asc ''Pumps'')), row_with_nulls]"
  "db_file_exists example_db"
  "open_connections example_db = 0"
  by (simp_all add: example_db_def)

lemma example_db_ids:
  "has_id i (row_with_description d) \<longleftrightarrow> i = 1"
  "has_id i row_with_nulls \<longleftrightarrow> i = 2"
  by (auto simp add: has_id_def row_with_description_def row_with_nulls_def)





text \<open>
  On every path of \<open>update_company\<close> that answers something other than 500, the
  connection it opened is closed again.
\<close>

lemma execute_update_connections:
  "execute_update affinity params company_id db = Inr (n, db') \<Longrightarrow>
   open_connections db' = open_connections db"
  unfolding execute_update_def
  by (cases "companies_table db"; cases "bind_all (params @ [JInt company_id])") auto

lemma update_company_closes:
  assumes "fst (update_company affinity company_id body db) = (code, p)" and "code \<noteq> 500"
  shows "open_connections (snd (update_company affinity company_id body db)) = open_connections db"
proof (cases body)
  case (Inl e)
  with assms show ?thesis by (simp add: update_company_def)
next
  case (Inr data)
  show ?thesis
  proof (cases "json_truthy data \<and> db_file_exists db")
    case False
    with Inr show ?thesis by (auto simp add: update_company_def get_db_connection_def)
  next
    case True
    let ?db1 = "db\<lparr>open_connections := Suc (open_connections db)\<rparr>"
    show ?thesis
    proof (cases data)
      case (JObj kvs)
      show ?thesis
      proof (cases "execute_update affinity (update_params kvs) company_id ?db1")
        case (Inl e)
        with assms Inr True JObj show ?thesis
          by (simp add: update_company_def get_db_connection_def)
      next
        case (Inr r)
        obtain n db2 where r: "r = (n, db2)" by (cases r)
        with Inr execute_update_connections [of affinity "update_params kvs" company_id ?db1 n db2]
        have "open_connections db2 = Suc (open_connections db)" by simp
        with Inr r \<open>body = Inr data\<close> True JObj show ?thesis
          by (simp add: update_company_def get_db_connection_def connection_close_def)
      qed
    qed (use assms Inr True in \<open>simp_all add: update_company_def get_db_connection_def\<close>)
  qed
qed

text \<open>
  Claim C2 says that a handler that opened a connection has closed it when it returns. On
  a handled exception it has not: here the body's \<open>company\<close> is a list, which cannot be
  bound, \<open>update_company\<close> answers 500, and the connection it opened is still open.
\<close>

theorem update_error_leaves_connection_open:
  "update_company no_affinity 1 (Inr (JObj [(asc ''company'', JList [JStr (asc ''Acme'')])])) example_db
     = ((500, JsonError (Some InterfaceError)), example_db\<lparr>open_connections := 1\<rparr>)"
  by (simp add: update_company_def get_db_connection_def execute_update_def example_db_rows
      json_truthy_def update_params_def data_columns_def items_get_def bind_param_def)

lemma short_description_raises: "short_description rt row_dict = Inl e \<Longrightarrow> e = TypeError"
  by (auto simp add: short_description_def slice100_dots_def split: if_splits sqlval.splits)

lemma transform_raises:
  assumes "transform_company_data rt row_dict = Inl e"
  shows "e = OverflowError \<or> e = TypeError"
proof (cases "normalize_rarity rt (dict_get row_dict ''czy_warto_sie_zainteresowac'')")
  case (Inl a)
  with assms have "a = e" by (simp add: transform_company_data_def Let_def)
  with Inl rarity_raises [of rt _ a] show ?thesis by blast
next
  case (Inr n)
  with assms have "short_description rt row_dict = Inl e"
    by (simp add: transform_company_data_def Let_def split: sum.splits)
  then show ?thesis using short_description_raises by blast
qed

lemma row_ids_member: "r \<in> set rows \<Longrightarrow> has_id i r \<Longrightarrow> i \<in> set (row_ids rows)"
  by (induction rows) (auto simp add: row_ids_def has_id_def)

lemma next_rowid_fresh: "r \<in> set rows \<Longrightarrow> \<not> has_id (next_rowid rows) r"
proof
  assume r: "r \<in> set rows" and h: "has_id (next_rowid rows) r"
  then have m: "next_rowid rows \<in> set (row_ids rows)" by (rule row_ids_member)
  then have ne: "row_ids rows \<noteq> []" by auto
  from m have "next_rowid rows \<le> Max (set (row_ids rows))" by simp
  with ne show False by (simp add: next_rowid_def)
qed

lemma find_appended:
  "(\<And>r. r \<in> set rows \<Longrightarrow> \<not> P r) \<Longrightarrow> P x \<Longrightarrow> find P (rows @ [x]) = Some x"
  by (induction rows) auto

lemma bind_all_Cons:
  "bind_all (v # vs) = Inr xs \<longleftrightarrow> (\<exists>x ys. bind_param v = Inr x \<and> bind_all vs = Inr ys \<and> xs = x # ys)"
  by (auto split: sum.splits)

lemma bind_text: "bind_param (JStr s) = Inr x \<Longrightarrow> x = VText s"
  by (auto simp add: bind_param_def split: if_splits)

lemma insert_params_head:
  "insert_params kvs = items_get kvs ''company'' JNull # tl (insert_params kvs)"
  by (simp add: insert_params_def data_columns_def)

lemma new_row_company:
  "bind_all (insert_params kvs) = Inr vs \<Longrightarrow> map_of kvs (asc ''company'') = Some (JStr s) \<Longrightarrow>
   map_of ((''id'', VInt i) # stored_columns affinity vs) ''company'' = Some (affinity ''company'' (VText s))"
proof -
  assume b: "bind_all (insert_params kvs) = Inr vs" and c: "map_of kvs (asc ''company'') = Some (JStr s)"
  from c have "items_get kvs ''company'' JNull = JStr s" by (simp add: items_get_def)
  with b insert_params_head [of kvs] obtain ys where "vs = VText s # ys"
    by (metis bind_all_Cons bind_text)
  then show ?thesis by (simp add: stored_columns_def data_columns_def)
qed

lemma create_then_get_row:
  assumes created: "add_company affinity (Inr (JObj kvs)) db = ((201, JsonCreated cid), db')"
    and company: "map_of kvs (asc ''company'') = Some (JStr s)"
  shows "\<exists>rows r. db_file_exists db' \<and> companies_table db' = Some rows \<and> int64 cid \<and>
           find (has_id cid) rows = Some r \<and> r ''company'' = Some (affinity ''company'' (VText s))"
proof -
  from created obtain rows vs where
      ex: "db_file_exists db" and tab: "companies_table db = Some rows"
      and b: "bind_all (insert_params kvs) = Inr vs" and i: "int64 (next_rowid rows)"
      and cid: "cid = next_rowid rows"
      and db': "db' = connection_close ((db\<lparr>open_connections := Suc (open_connections db)\<rparr>)
           \<lparr>companies_table := Some (rows @ [map_of ((''id'', VInt (next_rowid rows)) # stored_columns affinity vs)])\<rparr>)"
    by (auto simp add: add_company_def get_db_connection_def execute_insert_def
        split: if_splits option.splits sum.splits json.splits)
  let ?new = "map_of ((''id'', VInt (next_rowid rows)) # stored_columns affinity vs)"
  have "has_id (next_rowid rows) ?new" by (simp add: has_id_def)
  then have f: "find (has_id cid) (rows @ [?new]) = Some ?new"
    unfolding cid using next_rowid_fresh [of _ rows] by (intro find_appended) auto
  have c: "?new ''company'' = Some (affinity ''company'' (VText s))"
    using new_row_company [OF b company] .
  show ?thesis
    using ex i f c unfolding db' cid by (simp add: connection_close_def)
qed

text \<open>
  After a Create that answered 201 for a body whose \<open>company\<close> is a text the column
  keeps as bound, the Get by the returned identifier finds the new row: it answers 200 with
  that text as \<open>name\<close>, or it answers 500 because the transformer raised
  \<open>OverflowError\<close> (an infinite priority) or \<open>TypeError\<close>, or because a value of the
  record is not serializable.
\<close>

lemma create_then_get:
  assumes created: "add_company affinity (Inr (JObj kvs)) db = ((201, JsonCreated cid), db')"
    and company: "map_of kvs (asc ''company'') = Some (JStr s)"
    and kept: "affinity ''company'' (VText s) = VText s"
  shows "(\<exists>c. get_company rt cid db' = ((200, JsonCompany c), db') \<and> name c = VText s) \<or>
         (\<exists>e. fst (get_company rt cid db') = (500, JsonError (Some e)) \<and>
              (e = OverflowError \<or> e = TypeError))"
proof -
  from create_then_get_row [OF created company] kept obtain rows r where
      ex: "db_file_exists db'" and tab: "companies_table db' = Some rows" and i: "int64 cid"
      and f: "find (has_id cid) rows = Some r" and c: "r ''company'' = Some (VText s)"
    by auto
  have sel: "execute_select_by_id cid (db'\<lparr>open_connections := Suc (open_connections db')\<rparr>) = Inr (Some r)"
    using tab i f by (simp add: execute_select_by_id_def)
  have closed: "connection_close (db'\<lparr>open_connections := Suc (open_connections db')\<rparr>) = db'"
    by (simp add: connection_close_def)
  show ?thesis
  proof (cases "transform_company_data rt r")
    case (Inl e)
    then have "fst (get_company rt cid db') = (500, JsonError (Some e))"
      using ex sel by (simp add: get_company_def get_db_connection_def)
    with transform_raises [OF Inl] show ?thesis by blast
  next
    case (Inr co)
    have n: "name co = VText s"
      using transform_fields [OF Inr] c by (simp add: dict_get_default_def)
    show ?thesis
    proof (cases "serializable co")
      case True
      then have "get_company rt cid db' = ((200, JsonCompany co), db')"
        using ex sel Inr closed by (simp add: get_company_def get_db_connection_def)
      with n show ?thesis by blast
    next
      case False
      then have "fst (get_company rt cid db') = (500, JsonError (Some TypeError))"
        using ex sel Inr by (simp add: get_company_def get_db_connection_def)
      then show ?thesis by blast
    qed
  qed
qed

lemma example_db_next_rowid:
  "next_rowid [row_with_description (VText (asc ''Pumps'')), row_with_nulls] = 3"
  by (simp add: next_rowid_def row_ids_def row_with_description_def row_with_nulls_def)

lemma infinite_priority_binds:
  "bind_all (insert_params [(asc ''company'', JStr (asc ''Acme'')),
           (asc ''czy_warto_sie_zainteresowac'', JFloat PosInf)])
     = Inr [VText (asc ''Acme''), VNull, VNull, VNull, VNull, VNull, VNull, VNull, VNull, VReal PosInf]"
  by (simp add: insert_params_def data_columns_def items_get_def bind_param_def encodable_def asc_def)

lemma create_infinite_priority:
  "add_company no_affinity (Inr infinite_priority_body) example_db =
     ((201, JsonCreated 3),
      example_db\<lparr>companies_table :=
        Some [row_with_description (VText (asc ''Pumps'')), row_with_nulls, created_row]\<rparr>)"
  by (simp add: add_company_def infinite_priority_body_def json_truthy_def items_get_def
      get_db_connection_def execute_insert_def example_db_rows example_db_next_rowid
      infinite_priority_binds int64_def connection_close_def created_row_def)
     (simp add: asc_def example_db_def)

lemma created_row_fields:
  "has_id 3 created_row"
  "dict_get created_row ''czy_warto_sie_zainteresowac'' = VReal PosInf"
  "dict_get created_row ''company'' = VText (asc ''Acme'')"
  by (simp_all add: has_id_def dict_get_def created_row_def stored_columns_def data_columns_def no_affinity_def)

text \<open>
  Claim C1 says that a Get by the identifier Create returned succeeds and shows the
  submitted company name. It does not when the body gives the priority as a number beyond
  the range of a double (JSON \<open>1e999\<close>, read as infinity) and the column keeps it as a
  REAL: Create answers 201 with identifier 3, and the Get of 3 answers 500, because
  \<open>int\<close> of an infinity raises \<open>OverflowError\<close> in \<open>transform_company_data\<close>.
\<close>

theorem create_then_get_fails:
  "fst (add_company no_affinity (Inr infinite_priority_body) example_db) = (201, JsonCreated 3) \<and>
   fst (get_company ascii_runtime 3 (snd (add_company no_affinity (Inr infinite_priority_body) example_db)))
     = (500, JsonError (Some OverflowError))"
  by (simp add: create_infinite_priority get_company_def get_db_connection_def
      execute_select_by_id_def example_db_rows example_db_ids created_row_fields int64_def
      transform_company_data_def normalize_rarity_def Let_def)

end
